theory Spec2Isabelle
  imports Complex_Main "HOL-Library.Word"
begin

section \<open>The Nguyen-Widrow initialization rule of mlpack\<close>

text \<open>
  An embedding of \<^verbatim>\<open>src/mlpack/methods/ann/init_rules/nguyen_widrow_init.hpp\<close>:
  the class \<^verbatim>\<open>NguyenWidrowInitialization\<close>, its constructor and its method
  \<^verbatim>\<open>Initialize\<close>.

  Modelling decisions, all of them visible in the definitions below:
  \<^item> \<^verbatim>\<open>size_t\<close> is a 64-bit word; the integral division \<^verbatim>\<open>1 / n_rows\<close> is
    undefined for a zero divisor, which the model returns as \<open>None\<close>.
  \<^item> \<^verbatim>\<open>double\<close> is a real number or one of the three kinds of non-finite value of
    IEEE 754. Every operation on doubles takes the arithmetic it runs in: \<open>Binary64\<close>
    rounds each result to the nearest double (ties to even, subnormal numbers, overflow to
    infinity), which is what the program does; \<open>Exact\<close> rounds nothing, and is the reading
    under which a norm is said to equal the scale factor up to rounding. The sign of zero
    is not modelled.
  \<^item> The matrix is a record of its two dimensions and its entries (column by column, as
    Armadillo stores them).
  \<^item> \<^verbatim>\<open>RandomInitialization\<close> (\<^verbatim>\<open>random_init.hpp\<close>) and \<^verbatim>\<open>arma::norm\<close> are not part
    of the file; \<open>Initialize\<close> takes both as parameters. The filler may fail, and its
    failure leaves the method as an exception does.
\<close>

subsection \<open>Machine numbers\<close>

type_synonym size_t = "64 word"

datatype double = Fin real | PInf | NInf | NaN

fun is_finite :: "double \<Rightarrow> bool" where
  "is_finite (Fin x) = True"
| "is_finite PInf = False"
| "is_finite NInf = False"
| "is_finite NaN = False"



text \<open>Unsigned integral division; a zero divisor has no defined result in C++.\<close>

definition size_t_div :: "size_t \<Rightarrow> size_t \<Rightarrow> size_t option" where
  "size_t_div a b = (if b = 0 then None else Some (a div b))"

subsection \<open>Rounding to binary64\<close>

datatype arith = Exact | Binary64

text \<open>The nearest integer, a tie going to the even one.\<close>

definition rne :: "real \<Rightarrow> int" where
  "rne q =
     (let f = \<lfloor>q\<rfloor>; r = q - of_int f
      in if r < 1 / 2 then f else if 1 / 2 < r then f + 1 else if even f then f else f + 1)"

text \<open>
  The exponent of the binade of \<open>x\<close>; below \<open>2 ^ -1022\<close> the numbers are subnormal and
  keep the spacing of the lowest binade.
\<close>

definition fexp :: "real \<Rightarrow> int" where
  "fexp x = max \<lfloor>log 2 \<bar>x\<bar>\<rfloor> (- 1022)"

text \<open>
  The nearest number with a significand of 53 bits, the exponent unbounded above: a
  multiple of \<open>2 ^ (fexp x - 52)\<close>.
\<close>

definition round64 :: "real \<Rightarrow> real" where
  "round64 x =
     (if x = 0 then 0
      else of_int (rne (x / 2 powi (fexp x - 52))) * 2 powi (fexp x - 52))"

text \<open>The least magnitude that is too large for a double.\<close>

definition huge :: real where
  "huge = 2 ^ 1024"

text \<open>The result of an operation whose exact value is \<open>x\<close>.\<close>

fun rnd :: "arith \<Rightarrow> real \<Rightarrow> double" where
  "rnd Exact x = Fin x"
| "rnd Binary64 x =
     (if huge \<le> \<bar>round64 x\<bar> then (if 0 < x then PInf else NInf)
      else Fin (round64 x))"

text \<open>
  The conversion of an integral count to \<^verbatim>\<open>double\<close>. A count is below \<open>2 ^ 64\<close>, so the
  conversion never overflows; above \<open>2 ^ 53\<close> it rounds.
\<close>

fun to_double :: "arith \<Rightarrow> size_t \<Rightarrow> real" where
  "to_double Exact n = real (unat n)"
| "to_double Binary64 n = round64 (real (unat n))"

text \<open>IEEE 754 multiplication and division on the four kinds of value.\<close>

fun dmul :: "arith \<Rightarrow> double \<Rightarrow> double \<Rightarrow> double" where
  "dmul m (Fin a) (Fin b) = rnd m (a * b)"
| "dmul m NaN y = NaN"
| "dmul m x NaN = NaN"
| "dmul m (Fin a) PInf = (if 0 < a then PInf else if a < 0 then NInf else NaN)"
| "dmul m (Fin a) NInf = (if 0 < a then NInf else if a < 0 then PInf else NaN)"
| "dmul m PInf (Fin b) = (if 0 < b then PInf else if b < 0 then NInf else NaN)"
| "dmul m NInf (Fin b) = (if 0 < b then NInf else if b < 0 then PInf else NaN)"
| "dmul m PInf PInf = PInf"
| "dmul m PInf NInf = NInf"
| "dmul m NInf PInf = NInf"
| "dmul m NInf NInf = PInf"

fun ddiv :: "arith \<Rightarrow> double \<Rightarrow> double \<Rightarrow> double" where
  "ddiv m (Fin a) (Fin b) =
     (if b \<noteq> 0 then rnd m (a / b)
      else if 0 < a then PInf else if a < 0 then NInf else NaN)"
| "ddiv m NaN y = NaN"
| "ddiv m x NaN = NaN"
| "ddiv m (Fin a) PInf = Fin 0"
| "ddiv m (Fin a) NInf = Fin 0"
| "ddiv m PInf (Fin b) = (if 0 \<le> b then PInf else NInf)"
| "ddiv m NInf (Fin b) = (if 0 \<le> b then NInf else PInf)"
| "ddiv m PInf PInf = NaN"
| "ddiv m PInf NInf = NaN"
| "ddiv m NInf PInf = NaN"
| "ddiv m NInf NInf = NaN"

text \<open>
  \<^verbatim>\<open>std::pow(x, y)\<close> for finite arguments, the only ones the program passes (both are
  converted counts): any base to the power zero is one, zero to a positive power is zero,
  zero to a negative power is a pole, and a negative base needs an integral exponent.
  The program's exponent is \<open>0\<close> or \<open>1\<close>, where the power is exact.
\<close>

definition std_pow :: "arith \<Rightarrow> real \<Rightarrow> real \<Rightarrow> double" where
  "std_pow m x y =
     (if y = 0 then Fin 1
      else if x = 0 then (if 0 < y then Fin 0 else PInf)
      else if 0 < x then rnd m (x powr y)
      else if y = of_int \<lfloor>y\<rfloor> then rnd m (x powi \<lfloor>y\<rfloor>)
      else NaN)"

subsection \<open>The weight matrix\<close>

record mat =
  mat_n_rows :: nat
  mat_n_cols :: nat
  mat_mem :: "double list"

text \<open>A default-constructed matrix, \<^verbatim>\<open>arma::mat W;\<close>, has no entry.\<close>

definition mat_empty :: mat where
  "mat_empty = \<lparr>mat_n_rows = 0, mat_n_cols = 0, mat_mem = []\<rparr>"

text \<open>\<^verbatim>\<open>W *= s\<close>: every entry is multiplied by the one scalar; the shape stays.\<close>

definition mat_scale :: "arith \<Rightarrow> mat \<Rightarrow> double \<Rightarrow> mat" where
  "mat_scale m W s = W\<lparr>mat_mem := map (\<lambda>x. dmul m x s) (mat_mem W)\<rparr>"

subsection \<open>The class\<close>

record NguyenWidrowInitialization =
  lowerBound :: double
  upperBound :: double

text \<open>
  The constructor has a default for each parameter, so it is called with no argument,
  with one or with two.
\<close>

datatype ctor_args = NoArgs | OneArg double | TwoArgs double double

fun NguyenWidrowInitialization_ctor :: "ctor_args \<Rightarrow> NguyenWidrowInitialization" where
  "NguyenWidrowInitialization_ctor NoArgs = \<lparr>lowerBound = Fin (- 0.5), upperBound = Fin 0.5\<rparr>"
| "NguyenWidrowInitialization_ctor (OneArg lo) = \<lparr>lowerBound = lo, upperBound = Fin 0.5\<rparr>"
| "NguyenWidrowInitialization_ctor (TwoArgs lo hi) = \<lparr>lowerBound = lo, upperBound = hi\<rparr>"

text \<open>
  Line 77, \<^verbatim>\<open>double beta = 0.7 * std::pow(n_cols, 1 / n_rows)\<close>: the quotient is taken
  between two values of type \<^verbatim>\<open>size_t\<close>, and only its result and \<^verbatim>\<open>n_cols\<close> are
  converted to \<^verbatim>\<open>double\<close>, by the call of \<^verbatim>\<open>std::pow\<close>. The literal \<^verbatim>\<open>0.7\<close> is
  the double nearest to seven tenths.
\<close>

definition beta :: "arith \<Rightarrow> size_t \<Rightarrow> size_t \<Rightarrow> double option" where
  "beta m n_rows n_cols =
     (case size_t_div 1 n_rows of
        None \<Rightarrow> None
      | Some e \<Rightarrow>
          Some (dmul m (rnd m (7 / 10)) (std_pow m (to_double m n_cols) (to_double m e))))"

text \<open>
  The outcome of a call: it returns; or the filler failed, and its failure leaves the
  method as it is (the method catches nothing and throws nothing of its own); or the call
  has run into an operation that C++ leaves undefined.
\<close>

datatype ('e, 'a) outcome = Returned 'a | Threw 'e | Undefined

text \<open>
  The random filler, \<^verbatim>\<open>RandomInitialization(lowerBound, upperBound).Initialize(W, n_rows,
  n_cols)\<close>: from the two bounds, the matrix it is handed and the two counts, the matrix
  it leaves, or its failure (a matrix of \<open>n_rows \<times> n_cols\<close> entries may not be
  allocatable).
\<close>

type_synonym 'e filler = "double \<Rightarrow> double \<Rightarrow> mat \<Rightarrow> size_t \<Rightarrow> size_t \<Rightarrow> 'e + mat"

text \<open>Lines 74 and 75: the filler is built from the stored bounds and run on \<open>W\<close>.\<close>

definition filled ::
  "'e filler \<Rightarrow> NguyenWidrowInitialization \<Rightarrow> mat \<Rightarrow> size_t \<Rightarrow> size_t \<Rightarrow> 'e + mat" where
  "filled randomInit this W n_rows n_cols =
     randomInit (lowerBound this) (upperBound this) W n_rows n_cols"

text \<open>
  \<^verbatim>\<open>Initialize\<close>, lines 72 to 79. The state is the object and the matrix \<open>W\<close>; the
  method assigns to no member (both are \<^verbatim>\<open>const\<close>), so the object is returned as it
  came. The filler runs first: when it fails, nothing after line 75 is reached. The norm
  is a function from the matrix to a double: no failure of it is specified.
\<close>

definition Initialize ::
  "arith \<Rightarrow> 'e filler \<Rightarrow> (mat \<Rightarrow> double) \<Rightarrow> NguyenWidrowInitialization \<Rightarrow> mat
     \<Rightarrow> size_t \<Rightarrow> size_t \<Rightarrow> ('e, NguyenWidrowInitialization \<times> mat) outcome" where
  "Initialize m randomInit arma_norm this W n_rows n_cols =
     (case filled randomInit this W n_rows n_cols of
        Inl e \<Rightarrow> Threw e
      | Inr W1 \<Rightarrow>
          (case beta m n_rows n_cols of
             None \<Rightarrow> Undefined
           | Some b \<Rightarrow> Returned (this, mat_scale m W1 (ddiv m b (arma_norm W1)))))"

subsection \<open>Fillers and a norm to run the method with\<close>

text \<open>
  Modelled from the spec: the uniform random filler (\<^verbatim>\<open>random_init.hpp\<close> is not among the
  sources). It resizes the matrix to \<open>n_rows \<times> n_cols\<close> and assigns every entry a draw;
  the draws are the function \<open>draw\<close>, from the index of the entry.
\<close>

definition fill_with :: "(nat \<Rightarrow> real) \<Rightarrow> 'e filler" where
  "fill_with draw lo hi W n_rows n_cols =
     Inr \<lparr>mat_n_rows = unat n_rows, mat_n_cols = unat n_cols,
          mat_mem = map (\<lambda>i. Fin (draw i)) [0..<unat n_rows * unat n_cols]\<rparr>"

text \<open>
  Modelled from the spec: a failure of the random filler, which the method passes on to
  its caller unchanged.
\<close>

definition fill_fails :: "'e \<Rightarrow> 'e filler" where
  "fill_fails e lo hi W n_rows n_cols = Inl e"

text \<open>
  Modelled from the spec: the whole-matrix norm, the square root of the sum of the squares
  of all entries (\<^verbatim>\<open>arma::norm\<close> is library code). A not-a-number entry makes the norm
  not-a-number; otherwise an infinite entry makes it infinite. The square root is not
  rounded: in \<open>Binary64\<close> the norm is used on matrices whose norm is a double.
\<close>

fun the_fin :: "double \<Rightarrow> real" where
  "the_fin (Fin x) = x"
| "the_fin PInf = 0"
| "the_fin NInf = 0"
| "the_fin NaN = 0"

definition norm_fro :: "mat \<Rightarrow> double" where
  "norm_fro W =
     (if NaN \<in> set (mat_mem W) then NaN
      else if PInf \<in> set (mat_mem W) \<or> NInf \<in> set (mat_mem W) then PInf
      else Fin (sqrt (\<Sum>x\<leftarrow>mat_mem W. (the_fin x)\<^sup>2)))"

section \<open>The scale factor\<close>

lemma size_t_div_one:
  "size_t_div 1 n = (if n = 0 then None else if n = 1 then Some 1 else Some 0)"
  by (simp add: size_t_div_def)

lemma std_pow_zero: "std_pow m x 0 = Fin 1"
  by (simp add: std_pow_def)

lemma std_pow_one: "0 \<le> x \<Longrightarrow> std_pow Exact x 1 = Fin x"
  by (simp add: std_pow_def)

lemma to_double_nonneg: "0 \<le> to_double Exact n"
  unfolding to_double.simps by (rule of_nat_0_le_iff)

lemma to_double_0_1: "to_double Exact 0 = 0" "to_double Exact 1 = 1"
  by simp_all

lemma beta_cases:
  "beta Exact n_rows n_cols =
     (if n_rows = 0 then None
      else if n_rows = 1 then Some (Fin (7 / 10 * to_double Exact n_cols))
      else Some (Fin (7 / 10)))"
  using to_double_nonneg [of n_cols]
  by (simp add: beta_def size_t_div_one std_pow_zero std_pow_one to_double_0_1
      del: to_double.simps)

lemma beta_Some: "n_rows \<noteq> 0 \<Longrightarrow> \<exists>b. beta m n_rows n_cols = Some b"
  by (simp add: beta_def size_t_div_def)

lemma beta_nonneg: "beta Exact n_rows n_cols = Some (Fin b) \<Longrightarrow> 0 \<le> b"
  using to_double_nonneg [of n_cols]
  by (auto simp: beta_cases simp del: to_double.simps split: if_splits)

lemma two_le_size_t: "2 \<le> (n::size_t) \<Longrightarrow> n \<noteq> 0 \<and> n \<noteq> 1"
  by (auto simp: word_le_nat_alt)

section \<open>Rounding\<close>






















section \<open>IEEE values, the norm and the rescaling\<close>

lemma dmul_Fin_NaN:
  "dmul Exact x (Fin c) = NaN \<longleftrightarrow> x = NaN \<or> (c = 0 \<and> (x = PInf \<or> x = NInf))"
  by (cases x) auto

lemma the_fin_dmul: "is_finite x \<Longrightarrow> the_fin (dmul Exact x (Fin c)) = the_fin x * c"
  by (cases x) auto

lemma not_special_finite: "x \<noteq> NaN \<Longrightarrow> x \<noteq> PInf \<Longrightarrow> x \<noteq> NInf \<Longrightarrow> is_finite x"
  by (cases x) auto

lemma sumsq_scale:
  "\<forall>x\<in>set xs. is_finite x \<Longrightarrow>
   (\<Sum>x\<leftarrow>map (\<lambda>x. dmul Exact x (Fin c)) xs. (the_fin x)\<^sup>2) = c\<^sup>2 * (\<Sum>x\<leftarrow>xs. (the_fin x)\<^sup>2)"
  by (induction xs) (simp_all add: the_fin_dmul power_mult_distrib algebra_simps)

lemma NaN_in_scaled:
  "NaN \<in> set (map (\<lambda>x. dmul Exact x (Fin c)) xs) \<longleftrightarrow>
     NaN \<in> set xs \<or> (c = 0 \<and> (PInf \<in> set xs \<or> NInf \<in> set xs))"
proof (induction xs)
  case Nil
  show ?case by simp
next
  case (Cons x xs)
  have "NaN = dmul Exact x (Fin c) \<longleftrightarrow> NaN = x \<or> (c = 0 \<and> (PInf = x \<or> NInf = x))"
    using dmul_Fin_NaN [of x c] by (cases x) auto
  with Cons show ?case by auto
qed

lemma inf_in_scaled:
  "PInf \<in> set (map (\<lambda>x. dmul Exact x (Fin c)) xs)
     \<or> NInf \<in> set (map (\<lambda>x. dmul Exact x (Fin c)) xs) \<longleftrightarrow>
   c \<noteq> 0 \<and> (PInf \<in> set xs \<or> NInf \<in> set xs)"
proof (induction xs)
  case Nil
  show ?case by simp
next
  case (Cons x xs)
  have "PInf = dmul Exact x (Fin c) \<or> NInf = dmul Exact x (Fin c)
          \<longleftrightarrow> c \<noteq> 0 \<and> (PInf = x \<or> NInf = x)"
    by (cases x) auto
  with Cons show ?case by auto
qed

lemma norm_fro_scale:
  "norm_fro (mat_scale Exact M (Fin c)) = dmul Exact (Fin \<bar>c\<bar>) (norm_fro M)"
proof -
  let ?xs = "mat_mem M"
  let ?ys = "map (\<lambda>x. dmul Exact x (Fin c)) ?xs"
  have ys: "mat_mem (mat_scale Exact M (Fin c)) = ?ys" by (simp add: mat_scale_def)
  have nan: "NaN \<in> set ?ys \<longleftrightarrow> NaN \<in> set ?xs \<or> (c = 0 \<and> (PInf \<in> set ?xs \<or> NInf \<in> set ?xs))"
    by (rule NaN_in_scaled)
  have inf: "PInf \<in> set ?ys \<or> NInf \<in> set ?ys \<longleftrightarrow> c \<noteq> 0 \<and> (PInf \<in> set ?xs \<or> NInf \<in> set ?xs)"
    by (rule inf_in_scaled)
  show ?thesis
  proof (cases "NaN \<in> set ?xs \<or> PInf \<in> set ?xs \<or> NInf \<in> set ?xs")
    case True
    then show ?thesis
      unfolding norm_fro_def ys using nan inf by auto
  next
    case False
    then have fin: "\<forall>x\<in>set ?xs. is_finite x"
      by (metis not_special_finite)
    have n1: "NaN \<notin> set ?ys" and n2: "\<not> (PInf \<in> set ?ys \<or> NInf \<in> set ?ys)"
      using nan inf False by blast+
    have "norm_fro (mat_scale Exact M (Fin c)) = Fin (sqrt (\<Sum>x\<leftarrow>?ys. (the_fin x)\<^sup>2))"
      unfolding norm_fro_def ys using n1 n2 by (simp only: if_False)
    also have "\<dots> = Fin (sqrt (c\<^sup>2 * (\<Sum>x\<leftarrow>?xs. (the_fin x)\<^sup>2)))"
      by (simp only: sumsq_scale [OF fin])
    also have "\<dots> = Fin (\<bar>c\<bar> * sqrt (\<Sum>x\<leftarrow>?xs. (the_fin x)\<^sup>2))"
      by (simp add: real_sqrt_mult)
    also have "\<dots> = dmul Exact (Fin \<bar>c\<bar>) (norm_fro M)"
      using False by (simp add: norm_fro_def)
    finally show ?thesis .
  qed
qed

lemma Initialize_Returned:
  "filled randomInit this W n_rows n_cols = Inr W1 \<Longrightarrow> beta m n_rows n_cols = Some b \<Longrightarrow>
   Initialize m randomInit arma_norm this W n_rows n_cols =
     Returned (this, mat_scale m W1 (ddiv m b (arma_norm W1)))"
  by (simp add: Initialize_def)

lemma Initialize_Threw:
  "filled randomInit this W n_rows n_cols = Inl e \<Longrightarrow>
   Initialize m randomInit arma_norm this W n_rows n_cols = Threw e"
  by (simp add: Initialize_def)

lemma Initialize_norm:
  assumes b: "beta Exact n_rows n_cols = Some (Fin b)"
    and hom: "\<And>M c. arma_norm (mat_scale Exact M (Fin c)) = dmul Exact (Fin \<bar>c\<bar>) (arma_norm M)"
    and f: "filled randomInit this W n_rows n_cols = Inr W1"
    and n: "arma_norm W1 = Fin n" "0 < n"
  shows "\<exists>W'. Initialize Exact randomInit arma_norm this W n_rows n_cols = Returned (this, W')
            \<and> arma_norm W' = Fin b"
proof -
  have "0 \<le> b" using b by (rule beta_nonneg)
  then have abs: "\<bar>b / n\<bar> * n = b" using n(2) by (simp add: abs_mult)
  have "ddiv Exact (Fin b) (arma_norm W1) = Fin (b / n)"
    using n by simp
  then have "Initialize Exact randomInit arma_norm this W n_rows n_cols
               = Returned (this, mat_scale Exact W1 (Fin (b / n)))"
    using Initialize_Returned [OF f b, of arma_norm] by simp
  moreover have "arma_norm (mat_scale Exact W1 (Fin (b / n))) = Fin b"
    using abs by (simp only: hom n(1) dmul.simps rnd.simps)
  ultimately show ?thesis by blast
qed

lemma filled_fill_with:
  "filled (fill_with draw) this W n_rows n_cols =
     Inr \<lparr>mat_n_rows = unat n_rows, mat_n_cols = unat n_cols,
          mat_mem = map (\<lambda>i. Fin (draw i)) [0..<unat n_rows * unat n_cols]\<rparr>"
  by (simp add: filled_def fill_with_def)

lemma filled_fill_fails: "filled (fill_fails e) this W n_rows n_cols = Inl e"
  by (simp add: filled_def fill_fails_def)

lemma dmul_nonfinite: "\<not> is_finite s \<Longrightarrow> \<not> is_finite (dmul m x s)"
  by (cases x; cases s) auto

lemma ddiv_zero_nonfinite: "\<not> is_finite (ddiv m b (Fin 0))"
  by (cases b) auto

lemma mat_scale_shape:
  "mat_n_rows (mat_scale m M s) = mat_n_rows M \<and> mat_n_cols (mat_scale m M s) = mat_n_cols M
   \<and> length (mat_mem (mat_scale m M s)) = length (mat_mem M)"
  by (simp add: mat_scale_def)




section \<open>The claims\<close>

text \<open>
  C1. The claim: the scale factor is \<open>0.7 * n_cols ^ (1 / n_rows)\<close> with the exponent taken
  in real arithmetic, so that \<open>n_rows = 3\<close> and \<open>n_cols = 2\<close> give about \<open>0.881945\<close>.
  The class comment states the same formula. The code divides two values of type
  \<^verbatim>\<open>size_t\<close>: at \<open>n_rows = 3\<close> the exponent is \<open>0\<close>, and the factor is \<open>0.7\<close>, which is
  less than \<open>0.7 * 2 powr (1 / 3)\<close>.
\<close>

theorem beta_scenario_1:
  "beta Exact 3 2 = Some (Fin (7 / 10)) \<and> (7 / 10 :: real) < 7 / 10 * 2 powr (1 / 3)"
  by (simp add: beta_cases)

text \<open>
  C2. The claim: the norm of the matrix the call leaves is \<open>0.7 * n_cols ^ (1 / n_rows)\<close>.
  At \<open>n_rows = 3\<close> and \<open>n_cols = 2\<close>, with every entry drawn as \<open>1 / 2\<close>, the call returns a
  matrix whose norm is \<open>0.7\<close>, the factor the code computed, and not \<open>0.7 * 2 powr (1 / 3)\<close>.
\<close>

theorem Initialize_norm_scenario_1:
  "\<exists>W'. Initialize Exact (fill_with (\<lambda>i. 1 / 2)) norm_fro (NguyenWidrowInitialization_ctor NoArgs)
           mat_empty 3 2
           = Returned (NguyenWidrowInitialization_ctor NoArgs, W')
       \<and> norm_fro W' = Fin (7 / 10)
       \<and> (7 / 10 :: real) < 7 / 10 * 2 powr (1 / 3)"
proof -
  let ?W1 = "\<lparr>mat_n_rows = 3, mat_n_cols = 2, mat_mem = [Fin (1 / 2), Fin (1 / 2), Fin (1 / 2), Fin (1 / 2), Fin (1 / 2), Fin (1 / 2)]\<rparr>"
  have b: "beta Exact 3 2 = Some (Fin (7 / 10))"
    by (simp add: beta_cases)
  have f: "filled (fill_with (\<lambda>i. 1 / 2)) (NguyenWidrowInitialization_ctor NoArgs) mat_empty 3 2
             = Inr ?W1"
    by (simp add: filled_fill_with upt_conv_Cons)
  have n: "norm_fro ?W1 = Fin (sqrt (3 / 2))"
    by (simp add: norm_fro_def power2_eq_square)
  have "0 < sqrt (3 / 2 :: real)" by simp
  from Initialize_norm [of 3 2 "7 / 10" norm_fro, OF b norm_fro_scale f n this]
  show ?thesis by simp
qed


text \<open>
  C3. The claim: a zero norm after the fill is detected before the division and reported.
  The method has no such check: with every entry drawn as \<open>0\<close> in a \<open>2 \<times> 2\<close> matrix the
  norm is zero, the quotient \<open>0.7 / 0\<close> is infinite, and the call returns a matrix of four
  not-a-number entries.
\<close>

theorem Initialize_zero_norm_counterexample:
  "Initialize Exact (fill_with (\<lambda>i. 0)) norm_fro (NguyenWidrowInitialization_ctor NoArgs)
       mat_empty 2 2
     = Returned (NguyenWidrowInitialization_ctor NoArgs,
         \<lparr>mat_n_rows = 2, mat_n_cols = 2, mat_mem = [NaN, NaN, NaN, NaN]\<rparr>)"
  by (simp add: Initialize_def beta_cases filled_fill_with norm_fro_def mat_scale_def
      upt_conv_Cons)

text \<open>
  C3, as amended: when \<open>n_rows\<close> is not zero, the filler has returned and the norm of the
  matrix it left is zero, the call returns; the scalar it multiplied \<open>W\<close> by is not finite,
  and no entry of the matrix it leaves is finite. This holds in either arithmetic.
\<close>

theorem Initialize_zero_norm:
  assumes "n_rows \<noteq> 0"
    and "filled randomInit this W n_rows n_cols = Inr W1"
    and "arma_norm W1 = Fin 0"
  shows "\<exists>s. \<not> is_finite s
           \<and> Initialize m randomInit arma_norm this W n_rows n_cols
               = Returned (this, mat_scale m W1 s)
           \<and> list_all (\<lambda>x. \<not> is_finite x) (mat_mem (mat_scale m W1 s))"
proof -
  obtain b where b: "beta m n_rows n_cols = Some b"
    using beta_Some [OF assms(1)] by blast
  let ?s = "ddiv m b (arma_norm W1)"
  have s: "\<not> is_finite ?s"
    using assms(3) by (simp add: ddiv_zero_nonfinite)
  have "Initialize m randomInit arma_norm this W n_rows n_cols = Returned (this, mat_scale m W1 ?s)"
    using assms(2) b by (rule Initialize_Returned)
  moreover have "list_all (\<lambda>x. \<not> is_finite x) (mat_mem (mat_scale m W1 ?s))"
    using s by (simp add: mat_scale_def list_all_iff dmul_nonfinite)
  ultimately show ?thesis using s by blast
qed

theorem Initialize_zero_norm_witness:
  "Initialize Exact (fill_with (\<lambda>i. 0)) norm_fro (NguyenWidrowInitialization_ctor NoArgs)
       mat_empty 1 3
     = Returned (NguyenWidrowInitialization_ctor NoArgs,
         \<lparr>mat_n_rows = 1, mat_n_cols = 3, mat_mem = [NaN, NaN, NaN]\<rparr>)
   \<and> (\<exists>s. \<not> is_finite s
         \<and> Initialize Exact (fill_with (\<lambda>i. 0)) norm_fro (NguyenWidrowInitialization_ctor NoArgs)
               mat_empty 1 3
             = Returned (NguyenWidrowInitialization_ctor NoArgs,
                 mat_scale Exact
                   \<lparr>mat_n_rows = 1, mat_n_cols = 3, mat_mem = [Fin 0, Fin 0, Fin 0]\<rparr> s)
         \<and> list_all (\<lambda>x. \<not> is_finite x)
               (mat_mem (mat_scale Exact
                   \<lparr>mat_n_rows = 1, mat_n_cols = 3, mat_mem = [Fin 0, Fin 0, Fin 0]\<rparr> s)))"
proof -
  let ?W1 = "\<lparr>mat_n_rows = 1, mat_n_cols = 3, mat_mem = [Fin 0, Fin 0, Fin 0]\<rparr>"
  have f: "filled (fill_with (\<lambda>i. 0)) (NguyenWidrowInitialization_ctor NoArgs) mat_empty 1 3
             = Inr ?W1"
    by (simp add: filled_fill_with upt_conv_Cons)
  have n: "norm_fro ?W1 = Fin 0"
    by (simp add: norm_fro_def)
  have r: "(1::size_t) \<noteq> 0" by simp
  have "Initialize Exact (fill_with (\<lambda>i. 0)) norm_fro (NguyenWidrowInitialization_ctor NoArgs)
          mat_empty 1 3
     = Returned (NguyenWidrowInitialization_ctor NoArgs,
         \<lparr>mat_n_rows = 1, mat_n_cols = 3, mat_mem = [NaN, NaN, NaN]\<rparr>)"
    by (simp add: Initialize_def beta_cases filled_fill_with norm_fro_def mat_scale_def
        upt_conv_Cons)
  with Initialize_zero_norm [where arma_norm = norm_fro and m = Exact, OF r f n]
  show ?thesis by blast
qed

text \<open>
  C4. The claim: a call with \<open>n_rows = 0\<close>, or one that asks for a matrix of no element, is
  rejected before \<open>beta\<close> is computed. The method checks nothing: with \<open>n_rows = 2\<close> and
  \<open>n_cols = 0\<close>, a request for no element, and a filler that returns, the call returns and
  leaves the empty \<open>2 \<times> 0\<close> matrix.
\<close>

theorem Initialize_no_dimension_check_counterexample:
  "Initialize Exact (fill_with (\<lambda>i. 0)) norm_fro (NguyenWidrowInitialization_ctor NoArgs)
       mat_empty 2 0
     = Returned (NguyenWidrowInitialization_ctor NoArgs,
         \<lparr>mat_n_rows = 2, mat_n_cols = 0, mat_mem = []\<rparr>)"
  by (simp add: Initialize_def beta_cases filled_fill_with norm_fro_def mat_scale_def)

text \<open>
  C4, as amended: the method has no dimension check and no failure of its own. For
  \<open>n_rows\<close> other than zero, whatever \<open>n_cols\<close> is: when the filler fails, the call fails
  with the filler's failure; when the filler returns, the call returns. Nothing is said
  of \<open>n_rows = 0\<close>.
\<close>

theorem Initialize_no_dimension_check:
  assumes "n_rows \<noteq> 0"
  shows "case filled randomInit this W n_rows n_cols of
           Inl e \<Rightarrow> Initialize m randomInit arma_norm this W n_rows n_cols = Threw e
         | Inr W1 \<Rightarrow>
             (\<exists>W'. Initialize m randomInit arma_norm this W n_rows n_cols = Returned (this, W'))"
proof (cases "filled randomInit this W n_rows n_cols")
  case (Inl e)
  then show ?thesis by (simp add: Initialize_Threw)
next
  case (Inr W1)
  obtain b where "beta m n_rows n_cols = Some b"
    using beta_Some [OF assms] by blast
  with Inr show ?thesis by (simp add: Initialize_Returned)
qed

theorem Initialize_no_dimension_check_witness:
  "(1::size_t) \<noteq> 0
   \<and> (\<exists>W'. Initialize Exact (fill_with (\<lambda>i. 0)) norm_fro (NguyenWidrowInitialization_ctor NoArgs)
              mat_empty 1 0
            = Returned (NguyenWidrowInitialization_ctor NoArgs, W'))
   \<and> Initialize Exact (fill_fails ''std::bad_alloc'') norm_fro
         (NguyenWidrowInitialization_ctor NoArgs) mat_empty 1 0
       = Threw ''std::bad_alloc''"
  using Initialize_no_dimension_check [where n_rows = 1 and n_cols = 0 and m = Exact
      and randomInit = "fill_with (\<lambda>i. 0)" and arma_norm = norm_fro
      and this = "NguyenWidrowInitialization_ctor NoArgs" and W = mat_empty]
    Initialize_no_dimension_check [where n_rows = 1 and n_cols = 0 and m = Exact
      and randomInit = "fill_fails ''std::bad_alloc''" and arma_norm = norm_fro
      and this = "NguyenWidrowInitialization_ctor NoArgs" and W = mat_empty]
  by (simp add: filled_fill_with filled_fill_fails del: NguyenWidrowInitialization_ctor.simps)


text \<open>
  C5. When the filler leaves a matrix of \<open>n_rows\<close> rows and \<open>n_cols\<close> columns, and both counts
  are positive, the call returns and the matrix it leaves has \<open>n_rows\<close> rows and \<open>n_cols\<close>
  columns.
\<close>

theorem Initialize_shape:
  assumes contract:
      "filled randomInit this W n_rows n_cols = Inr W1"
      "mat_n_rows W1 = unat n_rows \<and> mat_n_cols W1 = unat n_cols"
    and "0 < n_rows" and "0 < n_cols"
  shows "\<exists>W'. Initialize m randomInit arma_norm this W n_rows n_cols = Returned (this, W')
            \<and> mat_n_rows W' = unat n_rows \<and> mat_n_cols W' = unat n_cols"
proof -
  from \<open>0 < n_rows\<close> have "n_rows \<noteq> 0" by auto
  then obtain b where b: "beta m n_rows n_cols = Some b"
    using beta_Some by blast
  show ?thesis
    using contract(2) by (simp add: Initialize_Returned [OF contract(1) b] mat_scale_shape)
qed

theorem Initialize_shape_witness:
  "\<exists>W'. Initialize Exact (fill_with (\<lambda>i. 1 / 4)) norm_fro (NguyenWidrowInitialization_ctor NoArgs)
           mat_empty 4 3
         = Returned (NguyenWidrowInitialization_ctor NoArgs, W')
       \<and> mat_n_rows W' = 4 \<and> mat_n_cols W' = 3"
proof -
  let ?t = "NguyenWidrowInitialization_ctor NoArgs"
  let ?W1 = "\<lparr>mat_n_rows = unat (4::size_t), mat_n_cols = unat (3::size_t),
      mat_mem = map (\<lambda>i. Fin (1 / 4)) [0..<unat (4::size_t) * unat (3::size_t)]\<rparr>"
  have f: "filled (fill_with (\<lambda>i. 1 / 4)) ?t mat_empty 4 3 = Inr ?W1"
    by (rule filled_fill_with)
  have c: "mat_n_rows ?W1 = unat (4::size_t) \<and> mat_n_cols ?W1 = unat (3::size_t)"
    by simp
  have r: "0 < (4::size_t)" "0 < (3::size_t)" by simp_all
  from Initialize_shape [where arma_norm = norm_fro and m = Exact, OF f c r]
  show ?thesis by simp
qed

text \<open>
  C6. For an initializer built with the bounds \<open>(-1, 1)\<close>, the call \<open>Initialize(W, 1, 5)\<close>
  computes the factor \<open>0.7 * 5 = 3.5\<close>; when the filler has returned and the norm of the
  matrix it left is positive, the call returns and the norm of the matrix it leaves is
  \<open>3.5\<close>. The norm is any function that is absolutely homogeneous, as \<open>norm_fro\<close> is.
\<close>

theorem Initialize_scenario_2:
  assumes hom:
      "\<And>M c. arma_norm (mat_scale Exact M (Fin c)) = dmul Exact (Fin \<bar>c\<bar>) (arma_norm M)"
    and f: "filled randomInit
              (NguyenWidrowInitialization_ctor (TwoArgs (Fin (- 1)) (Fin 1))) W 1 5 = Inr W1"
    and n: "arma_norm W1 = Fin n"
    and pos: "0 < n"
  shows "beta Exact 1 5 = Some (Fin (7 / 2))
       \<and> (\<exists>W'. Initialize Exact randomInit arma_norm
                  (NguyenWidrowInitialization_ctor (TwoArgs (Fin (- 1)) (Fin 1))) W 1 5
                = Returned (NguyenWidrowInitialization_ctor (TwoArgs (Fin (- 1)) (Fin 1)), W')
              \<and> arma_norm W' = Fin (7 / 2))"
proof -
  have b: "beta Exact 1 5 = Some (Fin (7 / 2))"
    by (simp add: beta_cases)
  from Initialize_norm [OF b hom f n pos] b show ?thesis by simp
qed

theorem Initialize_scenario_2_witness:
  "norm_fro \<lparr>mat_n_rows = 1, mat_n_cols = 5, mat_mem = [Fin 1, Fin 1, Fin 1, Fin 1, Fin 1]\<rparr>
     = Fin (sqrt 5)
   \<and> beta Exact 1 5 = Some (Fin (7 / 2))
   \<and> (\<exists>W'. Initialize Exact (fill_with (\<lambda>i. 1)) norm_fro
              (NguyenWidrowInitialization_ctor (TwoArgs (Fin (- 1)) (Fin 1))) mat_empty 1 5
            = Returned (NguyenWidrowInitialization_ctor (TwoArgs (Fin (- 1)) (Fin 1)), W')
          \<and> norm_fro W' = Fin (7 / 2))"
proof -
  let ?W1 = "\<lparr>mat_n_rows = 1, mat_n_cols = 5, mat_mem = [Fin 1, Fin 1, Fin 1, Fin 1, Fin 1]\<rparr>"
  have f: "filled (fill_with (\<lambda>i. 1))
      (NguyenWidrowInitialization_ctor (TwoArgs (Fin (- 1)) (Fin 1))) mat_empty 1 5 = Inr ?W1"
    by (simp add: filled_fill_with upt_conv_Cons)
  have n: "norm_fro ?W1 = Fin (sqrt 5)"
    by (simp add: norm_fro_def)
  have pos: "0 < sqrt (5::real)" by simp
  from Initialize_scenario_2 [of norm_fro, OF norm_fro_scale f n pos] n show ?thesis by simp
qed

text \<open>
  C7. The constructor stores whatever two bounds it is given, with no condition on them (a
  lower bound above the upper one included), and with no argument it stores \<open>-0.5\<close> and
  \<open>0.5\<close>.
\<close>

theorem ctor_stores_bounds:
  "lowerBound (NguyenWidrowInitialization_ctor (TwoArgs lo hi)) = lo
   \<and> upperBound (NguyenWidrowInitialization_ctor (TwoArgs lo hi)) = hi
   \<and> NguyenWidrowInitialization_ctor (TwoArgs (Fin 1) (Fin (- 1)))
       = \<lparr>lowerBound = Fin 1, upperBound = Fin (- 1)\<rparr>
   \<and> NguyenWidrowInitialization_ctor NoArgs
       = \<lparr>lowerBound = Fin (- (1 / 2)), upperBound = Fin (1 / 2)\<rparr>"
  by simp

text \<open>
  C8. A call that returns leaves the object as it was, so both bounds are unchanged; and
  the object is nothing but its two bounds: a later call on it is a call on the record of
  the two bounds it was built with.
\<close>

theorem Initialize_frame:
  assumes "Initialize m randomInit arma_norm this W n_rows n_cols = Returned (this', W')"
  shows "this' = this
       \<and> lowerBound this' = lowerBound this \<and> upperBound this' = upperBound this
       \<and> Initialize m2 randomInit2 arma_norm2 this' V n_rows2 n_cols2
           = Initialize m2 randomInit2 arma_norm2
               \<lparr>lowerBound = lowerBound this, upperBound = upperBound this\<rparr> V n_rows2 n_cols2"
proof -
  have same: "this' = this"
    using assms by (auto simp: Initialize_def split: sum.splits option.splits)
  have "\<lparr>lowerBound = lowerBound this, upperBound = upperBound this\<rparr> = this"
    by (cases this) simp
  then show ?thesis
    by (simp only: same simp_thms)
qed

theorem Initialize_frame_witness:
  "Initialize Exact (fill_with (\<lambda>i. 1 / 2)) norm_fro (NguyenWidrowInitialization_ctor NoArgs)
       mat_empty 1 1
     = Returned (NguyenWidrowInitialization_ctor NoArgs,
         \<lparr>mat_n_rows = 1, mat_n_cols = 1, mat_mem = [Fin (7 / 10)]\<rparr>)
   \<and> lowerBound (NguyenWidrowInitialization_ctor NoArgs) = Fin (- (1 / 2))
   \<and> upperBound (NguyenWidrowInitialization_ctor NoArgs) = Fin (1 / 2)
   \<and> Initialize Exact (fill_with (\<lambda>i. 0)) norm_fro (NguyenWidrowInitialization_ctor NoArgs)
         mat_empty 1 1
       = Initialize Exact (fill_with (\<lambda>i. 0)) norm_fro
           \<lparr>lowerBound = Fin (- (1 / 2)), upperBound = Fin (1 / 2)\<rparr> mat_empty 1 1"
proof -
  have r: "Initialize Exact (fill_with (\<lambda>i. 1 / 2)) norm_fro
             (NguyenWidrowInitialization_ctor NoArgs) mat_empty 1 1
     = Returned (NguyenWidrowInitialization_ctor NoArgs,
         \<lparr>mat_n_rows = 1, mat_n_cols = 1, mat_mem = [Fin (7 / 10)]\<rparr>)"
    by (simp add: Initialize_def beta_cases filled_fill_with norm_fro_def mat_scale_def)
  from Initialize_frame [OF r, where ?m2.0 = Exact and ?randomInit2.0 = "fill_with (\<lambda>i. 0)"
      and ?arma_norm2.0 = norm_fro and V = mat_empty and ?n_rows2.0 = 1 and ?n_cols2.0 = 1] r
  show ?thesis by simp
qed

text \<open>
  C9. For \<open>n_rows \<ge> 2\<close> the quotient \<open>1 / n_rows\<close> of two \<^verbatim>\<open>size_t\<close> values is \<open>0\<close>, the power
  is \<open>1\<close> and the factor is \<open>0.7\<close>, whatever \<open>n_cols\<close> is.
\<close>

theorem beta_truncated:
  assumes "2 \<le> n_rows"
  shows "size_t_div 1 n_rows = Some 0
       \<and> std_pow Exact (to_double Exact n_cols) (to_double Exact 0) = Fin 1
       \<and> beta Exact n_rows n_cols = Some (Fin (7 / 10))"
proof -
  have "n_rows \<noteq> 0 \<and> n_rows \<noteq> 1"
    using assms by (rule two_le_size_t)
  then show ?thesis
    by (simp add: size_t_div_one beta_cases std_pow_zero)
qed

theorem beta_truncated_witness:
  "(2::size_t) \<le> 4 \<and> size_t_div 1 4 = Some 0
   \<and> std_pow Exact (to_double Exact 4) (to_double Exact 0) = Fin 1
   \<and> beta Exact 4 4 = Some (Fin (7 / 10))"
proof -
  have h: "(2::size_t) \<le> 4" by simp
  from beta_truncated [OF h, of 4] h show ?thesis by simp
qed




end
